theory Spec2Isabelle
  imports Main
begin

section \<open>Values of the session provider\<close>

text \<open>
  The provider (\<^verbatim>\<open>src/providers/session-provider.tsx\<close>) reads a snapshot of the session
  store and talks to the store and to the API client only through calls. The records
  below carry the fields the provider reads; \<open>tenantFields\<close> and \<open>deviceFields\<close> stand for
  the remaining fields of the two records, which the provider passes on unread.
\<close>

record Tenant =
  slug :: string
  tenantFields :: "(string \<times> string) list"

record DeviceInfo =
  tenantId :: string
  deviceFields :: "(string \<times> string) list"

record SessionState =
  tenantSlug :: "string option"
  tenant :: "Tenant option"
  deviceInfo :: "DeviceInfo option"
  isDeviceAuthenticated :: bool
  accessToken :: "string option"
  refreshToken :: "string option"
  accessTokenExpiresAt :: "int option"
  isInitialized :: bool

record TokenResponse =
  newAccessToken :: string
  newRefreshToken :: string
  expiresIn :: int

text \<open>
  JavaScript truthiness of a value of type \<^verbatim>\<open>string | null | undefined\<close>: \<open>None\<close> is
  \<^verbatim>\<open>null\<close> or \<^verbatim>\<open>undefined\<close>, and the empty string is falsy as well.
\<close>

fun truthy :: "string option \<Rightarrow> bool" where
  "truthy None = False"
| "truthy (Some s) = (s \<noteq> [])"

text \<open>\<^verbatim>\<open>a || b\<close> with a string on the right: the left operand when it is truthy.\<close>

fun orElse :: "string option \<Rightarrow> string \<Rightarrow> string" where
  "orElse None b = b"
| "orElse (Some a) b = (if a \<noteq> [] then a else b)"

text \<open>
  A thrown value, as far as the \<^verbatim>\<open>catch\<close> block of the tenant fetch looks at it.
  \<open>NotAnObject\<close> is any value for which \<^verbatim>\<open>error && typeof error === 'object'\<close> is false
  (\<^verbatim>\<open>undefined\<close>, \<^verbatim>\<open>null\<close>, a string, a number). \<open>ErrorObject None\<close> is an object
  without a \<^verbatim>\<open>status\<close> property; \<open>ErrorObject (Some v)\<close> has one, whose value is the
  number \<open>n\<close> for \<open>StatusNumber n\<close> and anything that is not an integer number (a string such
  as \<^verbatim>\<open>"401"\<close>, \<^verbatim>\<open>undefined\<close>) for \<open>StatusOther\<close>.
\<close>

datatype status_value = StatusNumber int | StatusOther

datatype thrown = NotAnObject | ErrorObject "status_value option"

datatype 'a outcome = Returns 'a | Throws thrown

subsection \<open>Calls and computations\<close>

text \<open>
  The calls the provider makes on its collaborators. A trace lists the calls in the order
  they were made, each with a flag: \<open>True\<close> when the call returned, \<open>False\<close> when it threw
  (for the two API requests: when the awaited promise rejected).
\<close>

datatype call =
    ApiSetTenantId string
  | GetCurrentTenant
  | SetTenant string Tenant
  | ClearDeviceSession
  | SetInitialized bool
  | RefreshDeviceToken string
  | UpdateTokens string string int

type_synonym trace = "(call \<times> bool) list"

type_synonym 'a comp = "trace \<times> 'a outcome"

text \<open>
  How each collaborator answers during one pass. Every collaborator is called at most
  once per pass on each path that does not throw out of \<open>setInitialized\<close>, so one outcome
  per collaborator describes the pass; \<open>setInitialized\<close> answers the same way each time.
\<close>

record collaborators =
  onSetTenantId :: "unit outcome"
  onGetCurrentTenant :: "Tenant outcome"
  onSetTenant :: "unit outcome"
  onClearDeviceSession :: "unit outcome"
  onSetInitialized :: "unit outcome"
  onRefreshDeviceToken :: "TokenResponse outcome"
  onUpdateTokens :: "unit outcome"

fun returned :: "'a outcome \<Rightarrow> bool" where
  "returned (Returns x) = True"
| "returned (Throws e) = False"

definition ret :: "'a \<Rightarrow> 'a comp" where
  "ret x = ([], Returns x)"

definition invoke :: "call \<Rightarrow> 'a outcome \<Rightarrow> 'a comp" where
  "invoke c r = ([(c, returned r)], r)"

text \<open>Sequencing: a statement that throws skips the statements after it.\<close>

fun andThen :: "'a comp \<Rightarrow> ('a \<Rightarrow> 'b comp) \<Rightarrow> 'b comp" where
  "andThen (t, Returns x) f = (case f x of (t', r) \<Rightarrow> (t @ t', r))"
| "andThen (t, Throws e) f = (t, Throws e)"

text \<open>\<^verbatim>\<open>try { m } catch (error) { h error }\<close>.\<close>

fun tryCatch :: "'a comp \<Rightarrow> (thrown \<Rightarrow> 'a comp) \<Rightarrow> 'a comp" where
  "tryCatch (t, Returns x) h = (t, Returns x)"
| "tryCatch (t, Throws e) h = (case h e of (t', r) \<Rightarrow> (t @ t', r))"

section \<open>Initialization pass\<close>

text \<open>
  Lines 137--143: the test on the caught error.
  \<^verbatim>\<open>error && typeof error === 'object' && 'status' in error\<close>, then
  \<^verbatim>\<open>status === 401 || status === 403\<close>.
\<close>

fun authInvalid :: "thrown \<Rightarrow> bool" where
  "authInvalid NotAnObject = False"
| "authInvalid (ErrorObject None) = False"
| "authInvalid (ErrorObject (Some status)) =
     (status = StatusNumber 401 \<or> status = StatusNumber 403)"

text \<open>Line 129: \<^verbatim>\<open>tenantSlug || storedTenantSlug || tenant.slug\<close>.\<close>

definition slugToUse :: "string option \<Rightarrow> string option \<Rightarrow> Tenant \<Rightarrow> string" where
  "slugToUse tenantSlugProp storedTenantSlug fetched =
     orElse tenantSlugProp (orElse storedTenantSlug (slug fetched))"

text \<open>Lines 126--145: the inner \<^verbatim>\<open>try\<close>/\<^verbatim>\<open>catch\<close> around the tenant fetch.\<close>

definition fetchTenant :: "collaborators \<Rightarrow> string option \<Rightarrow> string option \<Rightarrow> unit comp" where
  "fetchTenant env tenantSlugProp storedTenantSlug =
     tryCatch
       (andThen (invoke GetCurrentTenant (onGetCurrentTenant env)) (\<lambda>fetched.
          invoke (SetTenant (slugToUse tenantSlugProp storedTenantSlug fetched) fetched)
            (onSetTenant env)))
       (\<lambda>error.
          if authInvalid error
          then invoke ClearDeviceSession (onClearDeviceSession env)
          else ret ())"

text \<open>
  Lines 95--158. \<open>tenantSlugProp\<close> is the component's prop and \<open>storedTenantSlug\<close> the slug
  the render captured from the store hook; \<open>state\<close> is the snapshot
  \<^verbatim>\<open>useSessionStore.getState()\<close> read at entry. \<open>notAuthenticated\<close> is line 153, reached
  when \<^verbatim>\<open>isAuth && device && accessToken\<close> is falsy; the handler of the outer
  \<^verbatim>\<open>catch\<close> is line 156.
\<close>

definition initSession ::
  "collaborators \<Rightarrow> string option \<Rightarrow> string option \<Rightarrow> SessionState \<Rightarrow> unit comp" where
  "initSession env tenantSlugProp storedTenantSlug state =
     (let isAuth = isDeviceAuthenticated state;
          device = deviceInfo state;
          token = accessToken state;
          persistedTenant = tenant state;
          notAuthenticated = invoke (SetInitialized True) (onSetInitialized env)
      in tryCatch
           (case device of
              None \<Rightarrow> notAuthenticated
            | Some d \<Rightarrow>
                if isAuth \<and> truthy token then
                  andThen (invoke (ApiSetTenantId (tenantId d)) (onSetTenantId env)) (\<lambda>_.
                    if persistedTenant \<noteq> None
                    then invoke (SetInitialized True) (onSetInitialized env)
                    else andThen (fetchTenant env tenantSlugProp storedTenantSlug) (\<lambda>_.
                           invoke (SetInitialized True) (onSetInitialized env)))
                else notAuthenticated)
           (\<lambda>error. invoke (SetInitialized True) (onSetInitialized env)))"

section \<open>Proactive refresh\<close>

text \<open>Lines 7--10.\<close>

definition REFRESH_THRESHOLD_MS :: int where
  "REFRESH_THRESHOLD_MS = 5 * 60 * 1000"

definition REFRESH_CHECK_INTERVAL_MS :: int where
  "REFRESH_CHECK_INTERVAL_MS = 60 * 1000"

text \<open>
  Lines 52--75. \<open>isTokenExpiringSoon\<close> is the store's method of that name (the store is not
  among the sources, so the method is a parameter): \<open>isTokenExpiringSoon state ms\<close> is the
  answer of \<^verbatim>\<open>state.isTokenExpiringSoon(ms)\<close> at the time of the tick.
\<close>

definition proactiveRefresh ::
  "collaborators \<Rightarrow> (SessionState \<Rightarrow> int \<Rightarrow> bool) \<Rightarrow> SessionState \<Rightarrow> unit comp" where
  "proactiveRefresh env isTokenExpiringSoon state =
     (if \<not> isDeviceAuthenticated state \<or> \<not> truthy (refreshToken state) then ret ()
      else if \<not> isTokenExpiringSoon state REFRESH_THRESHOLD_MS then ret ()
      else
        tryCatch
          (case refreshToken state of
             None \<Rightarrow> ret ()
           | Some token \<Rightarrow>
               andThen (invoke (RefreshDeviceToken token) (onRefreshDeviceToken env)) (\<lambda>response.
                 invoke
                   (UpdateTokens (newAccessToken response) (newRefreshToken response)
                      (expiresIn response))
                   (onUpdateTokens env)))
          (\<lambda>error. ret ()))"

section \<open>Session store\<close>

text \<open>
  The session store (\<^verbatim>\<open>@/stores/session-store\<close>) is not among the sources; the provider
  only calls its mutators. The four mutators below are modelled from the data model of the
  spec, which says what each one writes.
\<close>

text \<open>
  Modelled from the spec: the store's \<open>setTenant\<close>, missing from the sources. It stores the
  tenant record and the slug.
\<close>

definition setTenant :: "string \<Rightarrow> Tenant \<Rightarrow> SessionState \<Rightarrow> SessionState" where
  "setTenant s t state = state\<lparr>tenantSlug := Some s, tenant := Some t\<rparr>"

text \<open>
  Modelled from the spec: the store's \<open>setInitialized\<close>, missing from the sources. It sets
  the flag \<open>isInitialized\<close>.
\<close>

definition setInitialized :: "bool \<Rightarrow> SessionState \<Rightarrow> SessionState" where
  "setInitialized v state = state\<lparr>isInitialized := v\<rparr>"

text \<open>
  Modelled from the spec: the store's \<open>updateTokens\<close>, missing from the sources. It
  replaces access token, refresh token and expiry. How the store turns the
  \<open>expiresIn\<close> it is given into the absolute timestamp it keeps is not said, so that
  conversion is the parameter \<open>expiresAt\<close>.
\<close>

definition updateTokens ::
  "(int \<Rightarrow> int) \<Rightarrow> string \<Rightarrow> string \<Rightarrow> int \<Rightarrow> SessionState \<Rightarrow> SessionState" where
  "updateTokens expiresAt a r e state =
     state\<lparr>accessToken := Some a, refreshToken := Some r,
           accessTokenExpiresAt := Some (expiresAt e)\<rparr>"

text \<open>
  Modelled from the spec: the store's \<open>clearDeviceSession\<close>, missing from the sources. It
  resets \<open>deviceInfo\<close>, both tokens and \<open>isDeviceAuthenticated\<close> to their empty or false
  state; tenant and slug are kept.
\<close>

definition clearDeviceSession :: "SessionState \<Rightarrow> SessionState" where
  "clearDeviceSession state =
     state\<lparr>deviceInfo := None, accessToken := None, refreshToken := None,
           isDeviceAuthenticated := False\<rparr>"

text \<open>
  The effect of one call on the store. The calls on the API client write nothing to the
  store themselves, and a call that threw is taken to have written nothing.
\<close>

fun applyCall :: "(int \<Rightarrow> int) \<Rightarrow> call \<Rightarrow> SessionState \<Rightarrow> SessionState" where
  "applyCall expiresAt (ApiSetTenantId i) state = state"
| "applyCall expiresAt GetCurrentTenant state = state"
| "applyCall expiresAt (SetTenant s t) state = setTenant s t state"
| "applyCall expiresAt ClearDeviceSession state = clearDeviceSession state"
| "applyCall expiresAt (SetInitialized v) state = setInitialized v state"
| "applyCall expiresAt (RefreshDeviceToken r) state = state"
| "applyCall expiresAt (UpdateTokens a r e) state = updateTokens expiresAt a r e state"

fun applyTrace :: "(int \<Rightarrow> int) \<Rightarrow> trace \<Rightarrow> SessionState \<Rightarrow> SessionState" where
  "applyTrace expiresAt [] state = state"
| "applyTrace expiresAt ((c, ok) # rest) state =
     applyTrace expiresAt rest (if ok then applyCall expiresAt c state else state)"

text \<open>The states the store goes through, the first one included.\<close>

fun storeHistory :: "(int \<Rightarrow> int) \<Rightarrow> trace \<Rightarrow> SessionState \<Rightarrow> SessionState list" where
  "storeHistory expiresAt [] state = [state]"
| "storeHistory expiresAt ((c, ok) # rest) state =
     state # storeHistory expiresAt rest (if ok then applyCall expiresAt c state else state)"

text \<open>How often \<open>isInitialized\<close> goes from false to true along a list of states.\<close>

fun becomesInitialized :: "SessionState list \<Rightarrow> nat" where
  "becomesInitialized (a # b # rest) =
     (if \<not> isInitialized a \<and> isInitialized b then 1 else 0) + becomesInitialized (b # rest)"
| "becomesInitialized rest = 0"

text \<open>The calls of a trace that are the given call, whether they returned or threw.\<close>

definition callsOf :: "call \<Rightarrow> trace \<Rightarrow> nat" where
  "callsOf c t = length (filter (\<lambda>entry. fst entry = c) t)"

section \<open>The mounted component\<close>

text \<open>
  Lines 17--19 and the effects of lines 33--35, 78--88 and 91--161, as a machine over the
  events that reach a mounted provider. \<open>isHydrated\<close> is the \<^verbatim>\<open>useState\<close> cell and
  \<open>hasInitialized\<close> the \<^verbatim>\<open>useRef\<close> latch. \<open>intervals\<close> is the host's table of live
  intervals set by this component, \<open>pendingCleanup\<close> the interval id captured by the
  cleanup function the refresh effect returned last. \<open>initPasses\<close> and \<open>refreshTicks\<close> count
  the invocations of \<open>initSession\<close> and of \<open>proactiveRefresh\<close>.
\<close>

record mount =
  mounted :: bool
  isHydrated :: bool
  hasInitialized :: bool
  intervals :: "nat list"
  nextIntervalId :: nat
  pendingCleanup :: "nat option"
  initPasses :: nat
  refreshTicks :: nat

text \<open>
  The state after the first render and its effects: every effect that tests
  \<open>isHydrated\<close> has returned at once, and the effect of lines 33--35 has asked for
  \<open>isHydrated\<close> to become true.
\<close>

definition mounted0 :: mount where
  "mounted0 =
     \<lparr>mounted = True, isHydrated = False, hasInitialized = False, intervals = [],
      nextIntervalId = 0, pendingCleanup = None, initPasses = 0, refreshTicks = 0\<rparr>"

text \<open>Lines 92--93 and 160: the body of the initialization effect.\<close>

definition initEffect :: "mount \<Rightarrow> mount" where
  "initEffect m =
     (if \<not> isHydrated m \<or> hasInitialized m then m
      else m\<lparr>hasInitialized := True, initPasses := Suc (initPasses m)\<rparr>)"

text \<open>Line 87: the cleanup the refresh effect returned, \<^verbatim>\<open>clearInterval(intervalId)\<close>.\<close>

definition runCleanup :: "mount \<Rightarrow> mount" where
  "runCleanup m =
     (case pendingCleanup m of
        None \<Rightarrow> m
      | Some i \<Rightarrow> m\<lparr>intervals := removeAll i (intervals m), pendingCleanup := None\<rparr>)"

text \<open>
  Lines 79--87: the body of the refresh effect. Before hydration it returns no cleanup;
  after, it calls \<open>proactiveRefresh\<close> once, sets the interval and returns its cleanup.
\<close>

definition refreshEffect :: "mount \<Rightarrow> mount" where
  "refreshEffect m =
     (if \<not> isHydrated m then m\<lparr>pendingCleanup := None\<rparr>
      else
        m\<lparr>refreshTicks := Suc (refreshTicks m),
          intervals := nextIntervalId m # intervals m,
          nextIntervalId := Suc (nextIntervalId m),
          pendingCleanup := Some (nextIntervalId m)\<rparr>)"

text \<open>
  \<open>HydrationSignal\<close>: the render in which \<open>isHydrated\<close> is true for the first time; both
  effects have \<open>isHydrated\<close> among their dependencies and run again.
  \<open>StoreUpdate i r\<close>: a render caused by an update of the store (or of the props); \<open>i\<close>
  says that a dependency of the initialization effect changed, \<open>r\<close> that the identity of
  \<open>proactiveRefresh\<close> changed, so that the effect in question runs again (its cleanup
  first). \<open>IntervalElapsed\<close>: \<open>REFRESH_CHECK_INTERVAL_MS\<close> have passed; every live interval
  calls \<open>proactiveRefresh\<close>. \<open>Unmount\<close>: the cleanups run. An unmounted component renders no more.
\<close>

datatype event = HydrationSignal | StoreUpdate bool bool | IntervalElapsed | Unmount

fun step :: "event \<Rightarrow> mount \<Rightarrow> mount" where
  "step HydrationSignal m =
     (if \<not> mounted m \<or> isHydrated m then m
      else initEffect (refreshEffect (runCleanup (m\<lparr>isHydrated := True\<rparr>))))"
| "step (StoreUpdate initDeps refreshDeps) m =
     (if \<not> mounted m then m
      else
        (let m1 = (if refreshDeps then refreshEffect (runCleanup m) else m)
         in if initDeps then initEffect m1 else m1))"
| "step IntervalElapsed m = m\<lparr>refreshTicks := refreshTicks m + length (intervals m)\<rparr>"
| "step Unmount m = (if mounted m then (runCleanup m)\<lparr>mounted := False\<rparr> else m)"

fun run :: "event list \<Rightarrow> mount \<Rightarrow> mount" where
  "run [] m = m"
| "run (e # es) m = run es (step e m)"

text \<open>
  The invariant of the refresh effect: the live intervals of the component are exactly
  the one its pending cleanup will clear, and an unmounted component has no cleanup
  pending.
\<close>

definition cleanupOwnsIntervals :: "mount \<Rightarrow> bool" where
  "cleanupOwnsIntervals m \<longleftrightarrow>
     intervals m = (case pendingCleanup m of None \<Rightarrow> [] | Some i \<Rightarrow> [i]) \<and>
     (mounted m \<or> pendingCleanup m = None)"

section \<open>Modifier selection widgets\<close>

text \<open>
  The fields of \<^verbatim>\<open>Modifier\<close> and \<^verbatim>\<open>ModifierGroup\<close> that the three widgets read to decide
  whether a button is disabled and what a click does. A button is modelled by its key, its
  \<^verbatim>\<open>disabled\<close> attribute and the list of modifiers its \<^verbatim>\<open>onClick\<close> handler passes to
  \<^verbatim>\<open>onToggle\<close> when it runs (empty or the button's own modifier).
\<close>

record Modifier =
  modifierId :: string
  modifierName :: string
  isAvailable :: bool

record ModifierGroup =
  groupName :: string
  modifiers :: "Modifier list"
  minSelections :: int
  maxSelections :: int

record button =
  buttonKey :: string
  disabled :: bool
  onClick :: "Modifier list"

text \<open>\<^verbatim>\<open>group.modifiers.filter(m => selectedModifierIds.has(m.id)).length\<close>.\<close>

definition selectedCount :: "ModifierGroup \<Rightarrow> string set \<Rightarrow> int" where
  "selectedCount grp selectedModifierIds =
     int (length (filter (\<lambda>m. modifierId m \<in> selectedModifierIds) (modifiers grp)))"

text \<open>\<^verbatim>\<open>ModifierChips\<close>, lines 21--26 and 49--66 of \<^verbatim>\<open>unnamed/part_000\<close>.\<close>

definition chipButton :: "ModifierGroup \<Rightarrow> string set \<Rightarrow> Modifier \<Rightarrow> button" where
  "chipButton grp selectedModifierIds modifier =
     (let canSelectMore = selectedCount grp selectedModifierIds < maxSelections grp;
          isRadio = (maxSelections grp = 1);
          isSelected = (modifierId modifier \<in> selectedModifierIds);
          isDisabled = (\<not> isAvailable modifier \<or> (\<not> isRadio \<and> \<not> isSelected \<and> \<not> canSelectMore))
      in \<lparr>buttonKey = modifierId modifier, disabled = isDisabled,
          onClick = (if \<not> isDisabled then [modifier] else [])\<rparr>)"

definition ModifierChips :: "ModifierGroup \<Rightarrow> string set \<Rightarrow> button list" where
  "ModifierChips grp selectedModifierIds =
     map (chipButton grp selectedModifierIds) (modifiers grp)"

text \<open>\<^verbatim>\<open>ModifierCards\<close>, lines 88--93 and 119--136 of \<^verbatim>\<open>unnamed/part_001\<close>.\<close>

definition cardButton :: "ModifierGroup \<Rightarrow> string set \<Rightarrow> Modifier \<Rightarrow> button" where
  "cardButton grp selectedModifierIds modifier =
     (let canSelectMore = selectedCount grp selectedModifierIds < maxSelections grp;
          isRadio = (maxSelections grp = 1);
          isSelected = (modifierId modifier \<in> selectedModifierIds);
          isDisabled = (\<not> isAvailable modifier \<or> (\<not> isRadio \<and> \<not> isSelected \<and> \<not> canSelectMore))
      in \<lparr>buttonKey = modifierId modifier, disabled = isDisabled,
          onClick = (if \<not> isDisabled then [modifier] else [])\<rparr>)"

definition ModifierCards :: "ModifierGroup \<Rightarrow> string set \<Rightarrow> button list" where
  "ModifierCards grp selectedModifierIds =
     map (cardButton grp selectedModifierIds) (modifiers grp)"

text \<open>\<^verbatim>\<open>ModifierSegmented\<close>, lines 47--65 of \<^verbatim>\<open>modifier-segmented.tsx\<close>.\<close>

definition segmentButton :: "ModifierGroup \<Rightarrow> string set \<Rightarrow> Modifier \<Rightarrow> button" where
  "segmentButton grp selectedModifierIds modifier =
     (let isDisabled = (\<not> isAvailable modifier)
      in \<lparr>buttonKey = modifierId modifier, disabled = isDisabled,
          onClick = (if \<not> isDisabled then [modifier] else [])\<rparr>)"

definition ModifierSegmented :: "ModifierGroup \<Rightarrow> string set \<Rightarrow> button list" where
  "ModifierSegmented grp selectedModifierIds =
     map (segmentButton grp selectedModifierIds) (modifiers grp)"

section \<open>Sample inputs\<close>

definition sampleTenant :: Tenant where
  "sampleTenant = \<lparr>slug = ''acme'', tenantFields = [(''name'', ''Acme Diner'')]\<rparr>"

definition sampleDevice :: DeviceInfo where
  "sampleDevice = \<lparr>tenantId = ''t-1'', deviceFields = []\<rparr>"

definition sampleResponse :: TokenResponse where
  "sampleResponse =
     \<lparr>newAccessToken = ''access-2'', newRefreshToken = ''refresh-2'', expiresIn = 3600\<rparr>"

definition authState :: SessionState where
  "authState =
     \<lparr>tenantSlug = None, tenant = None, deviceInfo = Some sampleDevice,
      isDeviceAuthenticated = True, accessToken = Some ''access-1'',
      refreshToken = Some ''refresh-1'', accessTokenExpiresAt = Some 1000,
      isInitialized = False\<rparr>"

definition allReturn :: collaborators where
  "allReturn =
     \<lparr>onSetTenantId = Returns (), onGetCurrentTenant = Returns sampleTenant,
      onSetTenant = Returns (), onClearDeviceSession = Returns (),
      onSetInitialized = Returns (), onRefreshDeviceToken = Returns sampleResponse,
      onUpdateTokens = Returns ()\<rparr>"

definition sampleExpiresAt :: "int \<Rightarrow> int" where
  "sampleExpiresAt e = 500 + e * 1000"

text \<open>A store method \<open>isTokenExpiringSoon\<close> for a clock that reads \<open>now\<close>.\<close>

definition expiringAt :: "int \<Rightarrow> SessionState \<Rightarrow> int \<Rightarrow> bool" where
  "expiringAt now state ms =
     (case accessTokenExpiresAt state of None \<Rightarrow> False | Some t \<Rightarrow> t \<le> now + ms)"

definition cheese :: Modifier where
  "cheese = \<lparr>modifierId = ''m1'', modifierName = ''Cheese'', isAvailable = True\<rparr>"

definition bacon :: Modifier where
  "bacon = \<lparr>modifierId = ''m2'', modifierName = ''Bacon'', isAvailable = True\<rparr>"

definition olives :: Modifier where
  "olives = \<lparr>modifierId = ''m3'', modifierName = ''Olives'', isAvailable = True\<rparr>"

definition truffle :: Modifier where
  "truffle = \<lparr>modifierId = ''m4'', modifierName = ''Truffle'', isAvailable = False\<rparr>"

definition toppings :: ModifierGroup where
  "toppings =
     \<lparr>groupName = ''Toppings'', modifiers = [cheese, bacon, olives, truffle],
      minSelections = 0, maxSelections = 2\<rparr>"

section \<open>Computations and traces\<close>

lemma andThen_alt:
  "andThen m f =
     (case snd m of
        Returns x \<Rightarrow> (fst m @ fst (f x), snd (f x))
      | Throws e \<Rightarrow> (fst m, Throws e))"
  by (cases m; cases "snd m") (auto split: prod.splits)

lemma tryCatch_alt:
  "tryCatch m h =
     (case snd m of
        Returns x \<Rightarrow> m
      | Throws e \<Rightarrow> (fst m @ fst (h e), snd (h e)))"
  by (cases m; cases "snd m") (auto split: prod.splits)

lemmas comp_simps = andThen_alt tryCatch_alt invoke_def ret_def Let_def

lemmas store_simps =
  setTenant_def setInitialized_def updateTokens_def clearDeviceSession_def

lemma applyTrace_append:
  "applyTrace ea (t @ u) s = applyTrace ea u (applyTrace ea t s)"
  by (induction t arbitrary: s) auto

lemma authInvalid_iff:
  "authInvalid e \<longleftrightarrow>
     e = ErrorObject (Some (StatusNumber 401)) \<or> e = ErrorObject (Some (StatusNumber 403))"
  by (cases e rule: authInvalid.cases) auto

section \<open>The initialization pass, path by path\<close>

lemma initSession_shape:
  "\<exists>t. initSession env p s st =
         (t @ [(SetInitialized True, returned (onSetInitialized env))], onSetInitialized env)"
  by (cases "onSetInitialized env")
     (auto simp: initSession_def fetchTenant_def comp_simps split: option.splits outcome.splits)

lemma initSession_not_authenticated:
  assumes "\<not> (isDeviceAuthenticated st \<and> deviceInfo st \<noteq> None \<and> truthy (accessToken st))"
  shows "fst (initSession env p s st) =
           (if returned (onSetInitialized env) then [(SetInitialized True, True)]
            else [(SetInitialized True, False), (SetInitialized True, False)])"
  using assms
  by (cases "onSetInitialized env")
     (auto simp: initSession_def comp_simps split: option.splits)

lemma initSession_persisted:
  assumes "isDeviceAuthenticated st" "deviceInfo st = Some d" "truthy (accessToken st)"
    and "tenant st = Some t"
  shows "fst (initSession env p s st) =
           (ApiSetTenantId (tenantId d), returned (onSetTenantId env)) #
           (if returned (onSetTenantId env) \<and> \<not> returned (onSetInitialized env)
            then [(SetInitialized True, False), (SetInitialized True, False)]
            else [(SetInitialized True, returned (onSetInitialized env))])"
  using assms
  by (cases "onSetInitialized env"; cases "onSetTenantId env")
     (auto simp: initSession_def comp_simps)

lemma initSession_fetch_failed:
  assumes "isDeviceAuthenticated st" "deviceInfo st = Some d" "truthy (accessToken st)"
    and "tenant st = None" "onSetTenantId env = Returns ()"
    and "onGetCurrentTenant env = Throws e"
  shows "fst (initSession env p s st) =
           [(ApiSetTenantId (tenantId d), True), (GetCurrentTenant, False)] @
           (if authInvalid e then [(ClearDeviceSession, returned (onClearDeviceSession env))]
            else []) @
           (if returned (onSetInitialized env) then [(SetInitialized True, True)]
            else if authInvalid e \<and> \<not> returned (onClearDeviceSession env)
            then [(SetInitialized True, False)]
            else [(SetInitialized True, False), (SetInitialized True, False)])"
  using assms
  by (cases "onClearDeviceSession env"; cases "onSetInitialized env")
     (auto simp: initSession_def fetchTenant_def comp_simps)

lemma initSession_fetched:
  assumes "isDeviceAuthenticated st" "deviceInfo st = Some d" "truthy (accessToken st)"
    and "tenant st = None" "onSetTenantId env = Returns ()"
    and "onGetCurrentTenant env = Returns t" "onSetTenant env = Returns ()"
  shows "fst (initSession env p s st) =
           [(ApiSetTenantId (tenantId d), True), (GetCurrentTenant, True),
            (SetTenant (slugToUse p s t) t, True)] @
           (if returned (onSetInitialized env) then [(SetInitialized True, True)]
            else [(SetInitialized True, False), (SetInitialized True, False)])"
  using assms
  by (cases "onSetInitialized env")
     (auto simp: initSession_def fetchTenant_def comp_simps)

lemma becomesInitialized_pass:
  assumes "onSetInitialized env = Returns ()" "\<not> isInitialized store"
  shows "becomesInitialized (storeHistory ea (fst (initSession env p s st)) store) = 1"
  using assms
  by (auto simp: initSession_def fetchTenant_def comp_simps store_simps
           split: option.splits outcome.splits)

lemma callsOf_SetInitialized_pass:
  assumes "onSetInitialized env = Returns ()"
  shows "callsOf (SetInitialized True) (fst (initSession env p s st)) = 1"
  using assms
  by (auto simp: initSession_def fetchTenant_def comp_simps callsOf_def
           split: option.splits outcome.splits)

section \<open>Claims about the initialization pass\<close>

text \<open>
  C1. Whatever snapshot the pass reads and however the collaborators answer (the tenant
  fetch succeeding, rejecting with any status, or rejecting with any other thrown
  value), the pass makes at least one call and its last call is \<open>setInitialized(true)\<close>.
  When that call returns, the promise of the pass resolves and the store ends with
  \<open>isInitialized\<close> true, from whatever state the store was in.
\<close>

theorem initSession_always_marks_initialized:
  "fst (initSession env p s st) \<noteq> [] \<and>
   fst (last (fst (initSession env p s st))) = SetInitialized True \<and>
   (returned (onSetInitialized env) \<longrightarrow>
      returned (snd (initSession env p s st)) \<and>
      last (fst (initSession env p s st)) = (SetInitialized True, True) \<and>
      isInitialized (applyTrace ea (fst (initSession env p s st)) store))"
proof -
  obtain t where shape:
    "initSession env p s st =
       (t @ [(SetInitialized True, returned (onSetInitialized env))], onSetInitialized env)"
    using initSession_shape by blast
  show ?thesis
    by (simp add: shape applyTrace_append setInitialized_def)
qed

theorem initSession_always_marks_initialized_witness:
  "returned (onSetInitialized (allReturn\<lparr>onGetCurrentTenant := Throws NotAnObject\<rparr>)) \<and>
   last (fst (initSession (allReturn\<lparr>onGetCurrentTenant := Throws NotAnObject\<rparr>)
                None None authState)) = (SetInitialized True, True) \<and>
   isInitialized
     (applyTrace sampleExpiresAt
        (fst (initSession (allReturn\<lparr>onGetCurrentTenant := Throws NotAnObject\<rparr>)
                None None authState)) authState)"
  using initSession_always_marks_initialized
    [of "allReturn\<lparr>onGetCurrentTenant := Throws NotAnObject\<rparr>" None None authState
        sampleExpiresAt authState]
  by (simp add: allReturn_def)

text \<open>
  C2. The device is authenticated (flag set, device record present, access token
  non-empty), no tenant is persisted, the tenant id was registered and the tenant fetch
  rejects with \<open>e\<close>. Then \<open>clearDeviceSession\<close> is called exactly when \<open>e\<close> is an object whose
  \<open>status\<close> is the number 401 or 403, and then once. With \<open>setInitialized\<close> returning,
  \<open>isInitialized\<close> ends true in both cases; for every other \<open>e\<close> (status 500, no status,
  not an object) the pass writes nothing to the store but that flag, and after a clear
  that returned the store is the cleared one with the flag set.
\<close>

theorem initSession_clears_only_on_401_403:
  assumes "isDeviceAuthenticated st" "deviceInfo st = Some d" "truthy (accessToken st)"
    and "tenant st = None" "onSetTenantId env = Returns ()"
    and "onGetCurrentTenant env = Throws e"
  shows "callsOf ClearDeviceSession (fst (initSession env p s st)) =
           (if e = ErrorObject (Some (StatusNumber 401)) \<or>
               e = ErrorObject (Some (StatusNumber 403)) then 1 else 0) \<and>
         (onSetInitialized env = Returns () \<longrightarrow>
            isInitialized (applyTrace ea (fst (initSession env p s st)) store) \<and>
            (e \<noteq> ErrorObject (Some (StatusNumber 401)) \<and>
             e \<noteq> ErrorObject (Some (StatusNumber 403)) \<longrightarrow>
               applyTrace ea (fst (initSession env p s st)) store =
                 store\<lparr>isInitialized := True\<rparr>) \<and>
            ((e = ErrorObject (Some (StatusNumber 401)) \<or>
              e = ErrorObject (Some (StatusNumber 403))) \<and>
             onClearDeviceSession env = Returns () \<longrightarrow>
               applyTrace ea (fst (initSession env p s st)) store =
                 (clearDeviceSession store)\<lparr>isInitialized := True\<rparr>))"
proof -
  note trace = initSession_fetch_failed [OF assms, of p s]
  have calls: "callsOf ClearDeviceSession (fst (initSession env p s st)) =
                 (if e = ErrorObject (Some (StatusNumber 401)) \<or>
                     e = ErrorObject (Some (StatusNumber 403)) then 1 else 0)"
    by (simp add: trace callsOf_def authInvalid_iff)
  have flag: "isInitialized (applyTrace ea (fst (initSession env p s st)) store)"
    if "onSetInitialized env = Returns ()"
    using that by (simp add: trace applyTrace_append setInitialized_def)
  have kept: "applyTrace ea (fst (initSession env p s st)) store = store\<lparr>isInitialized := True\<rparr>"
    if "onSetInitialized env = Returns ()"
      "e \<noteq> ErrorObject (Some (StatusNumber 401))" "e \<noteq> ErrorObject (Some (StatusNumber 403))"
    using that by (simp add: trace authInvalid_iff setInitialized_def)
  have cleared: "applyTrace ea (fst (initSession env p s st)) store =
                   (clearDeviceSession store)\<lparr>isInitialized := True\<rparr>"
    if "onSetInitialized env = Returns ()"
      "e = ErrorObject (Some (StatusNumber 401)) \<or> e = ErrorObject (Some (StatusNumber 403))"
      "onClearDeviceSession env = Returns ()"
    using that by (auto simp: trace authInvalid_iff setInitialized_def)
  from calls flag kept cleared show ?thesis by blast
qed

theorem initSession_clears_only_on_401_403_witness:
  "isDeviceAuthenticated authState \<and> deviceInfo authState = Some sampleDevice \<and>
   truthy (accessToken authState) \<and> tenant authState = None \<and>
   onSetTenantId allReturn = Returns () \<and> onSetInitialized allReturn = Returns () \<and>
   callsOf ClearDeviceSession
     (fst (initSession
        (allReturn\<lparr>onGetCurrentTenant := Throws (ErrorObject (Some (StatusNumber 401)))\<rparr>)
        None None authState)) = 1 \<and>
   \<not> isDeviceAuthenticated
     (applyTrace sampleExpiresAt
        (fst (initSession
           (allReturn\<lparr>onGetCurrentTenant := Throws (ErrorObject (Some (StatusNumber 401)))\<rparr>)
           None None authState)) authState) \<and>
   callsOf ClearDeviceSession
     (fst (initSession
        (allReturn\<lparr>onGetCurrentTenant := Throws (ErrorObject (Some (StatusNumber 500)))\<rparr>)
        None None authState)) = 0 \<and>
   applyTrace sampleExpiresAt
     (fst (initSession
        (allReturn\<lparr>onGetCurrentTenant := Throws (ErrorObject (Some (StatusNumber 500)))\<rparr>)
        None None authState)) authState = authState\<lparr>isInitialized := True\<rparr> \<and>
   callsOf ClearDeviceSession
     (fst (initSession (allReturn\<lparr>onGetCurrentTenant := Throws (ErrorObject None)\<rparr>)
        None None authState)) = 0"
  using
    initSession_clears_only_on_401_403
      [of authState sampleDevice
          "allReturn\<lparr>onGetCurrentTenant := Throws (ErrorObject (Some (StatusNumber 401)))\<rparr>"
          "ErrorObject (Some (StatusNumber 401))" None None sampleExpiresAt authState]
    initSession_clears_only_on_401_403
      [of authState sampleDevice
          "allReturn\<lparr>onGetCurrentTenant := Throws (ErrorObject (Some (StatusNumber 500)))\<rparr>"
          "ErrorObject (Some (StatusNumber 500))" None None sampleExpiresAt authState]
    initSession_clears_only_on_401_403
      [of authState sampleDevice
          "allReturn\<lparr>onGetCurrentTenant := Throws (ErrorObject None)\<rparr>"
          "ErrorObject None" None None sampleExpiresAt authState]
  by (simp add: allReturn_def authState_def clearDeviceSession_def)

text \<open>
  C4. The device is authenticated, no tenant is persisted, and the tenant id, the fetch
  and \<open>setTenant\<close> all return. Then the pass calls \<open>setTenant\<close> once, with the fetched record
  and with the slug chosen in this order: the \<open>tenantSlug\<close> prop when it is a non-empty
  string, else the stored slug when it is a non-empty string, else the slug of the
  fetched record. The store then holds that slug and that record.
\<close>

theorem initSession_slug_priority:
  assumes "isDeviceAuthenticated st" "deviceInfo st = Some d" "truthy (accessToken st)"
    and "tenant st = None" "onSetTenantId env = Returns ()"
    and "onGetCurrentTenant env = Returns t" "onSetTenant env = Returns ()"
  shows "(\<exists>rest. fst (initSession env p s st) =
            [(ApiSetTenantId (tenantId d), True), (GetCurrentTenant, True),
             (SetTenant (slugToUse p s t) t, True)] @ rest \<and>
            (\<forall>c \<in> set rest. fst c = SetInitialized True)) \<and>
         (truthy p \<longrightarrow> p = Some (slugToUse p s t)) \<and>
         (\<not> truthy p \<and> truthy s \<longrightarrow> s = Some (slugToUse p s t)) \<and>
         (\<not> truthy p \<and> \<not> truthy s \<longrightarrow> slugToUse p s t = slug t) \<and>
         tenantSlug (applyTrace ea (fst (initSession env p s st)) store) =
           Some (slugToUse p s t) \<and>
         tenant (applyTrace ea (fst (initSession env p s st)) store) = Some t"
proof -
  note trace = initSession_fetched [OF assms, of p s]
  have prio:
    "(truthy p \<longrightarrow> p = Some (slugToUse p s t)) \<and>
     (\<not> truthy p \<and> truthy s \<longrightarrow> s = Some (slugToUse p s t)) \<and>
     (\<not> truthy p \<and> \<not> truthy s \<longrightarrow> slugToUse p s t = slug t)"
    by (cases p; cases s) (auto simp: slugToUse_def)
  have stored:
    "tenantSlug (applyTrace ea (fst (initSession env p s st)) store) = Some (slugToUse p s t) \<and>
     tenant (applyTrace ea (fst (initSession env p s st)) store) = Some t"
    by (simp add: trace store_simps)
  from trace prio stored show ?thesis by auto
qed

theorem initSession_slug_priority_witness:
  "isDeviceAuthenticated authState \<and> deviceInfo authState = Some sampleDevice \<and>
   truthy (accessToken authState) \<and> tenant authState = None \<and>
   slugToUse (Some ''from-prop'') (Some ''stored'') sampleTenant = ''from-prop'' \<and>
   slugToUse None (Some ''stored'') sampleTenant = ''stored'' \<and>
   slugToUse None None sampleTenant = ''acme'' \<and>
   tenantSlug
     (applyTrace sampleExpiresAt
        (fst (initSession allReturn None (Some ''stored'') authState)) authState) =
     Some ''stored'' \<and>
   tenant
     (applyTrace sampleExpiresAt
        (fst (initSession allReturn None (Some ''stored'') authState)) authState) =
     Some sampleTenant"
  using
    initSession_slug_priority
      [of authState sampleDevice allReturn sampleTenant "Some ''from-prop''" "Some ''stored''"
          sampleExpiresAt authState]
    initSession_slug_priority
      [of authState sampleDevice allReturn sampleTenant None "Some ''stored''"
          sampleExpiresAt authState]
    initSession_slug_priority
      [of authState sampleDevice allReturn sampleTenant None None sampleExpiresAt authState]
  by (simp add: allReturn_def authState_def sampleTenant_def)

text \<open>
  C7. The device is authenticated and a tenant record is persisted. Then, whatever the
  collaborators answer, the pass makes no tenant fetch and no \<open>setTenant\<close> call: its first
  call registers the device's tenant id with the API client and every later call is
  \<open>setInitialized(true)\<close>. With \<open>setInitialized\<close> returning these are exactly two calls,
  the persisted tenant stays as it is and \<open>isInitialized\<close> ends true.
\<close>

theorem initSession_persisted_tenant_no_fetch:
  assumes "isDeviceAuthenticated st" "deviceInfo st = Some d" "truthy (accessToken st)"
    and "tenant st = Some t"
  shows "callsOf GetCurrentTenant (fst (initSession env p s st)) = 0 \<and>
         (\<exists>rest. fst (initSession env p s st) =
            (ApiSetTenantId (tenantId d), returned (onSetTenantId env)) # rest \<and>
            set (map fst rest) = {SetInitialized True}) \<and>
         (onSetInitialized env = Returns () \<longrightarrow>
            fst (initSession env p s st) =
              [(ApiSetTenantId (tenantId d), returned (onSetTenantId env)),
               (SetInitialized True, True)] \<and>
            applyTrace ea (fst (initSession env p s st)) store =
              store\<lparr>isInitialized := True\<rparr>)"
  using initSession_persisted [OF assms, of env p s]
  by (simp add: callsOf_def setInitialized_def)

theorem initSession_persisted_tenant_no_fetch_witness:
  "isDeviceAuthenticated (authState\<lparr>tenant := Some sampleTenant\<rparr>) \<and>
   deviceInfo (authState\<lparr>tenant := Some sampleTenant\<rparr>) = Some sampleDevice \<and>
   truthy (accessToken (authState\<lparr>tenant := Some sampleTenant\<rparr>)) \<and>
   tenant (authState\<lparr>tenant := Some sampleTenant\<rparr>) = Some sampleTenant \<and>
   fst (initSession allReturn None None (authState\<lparr>tenant := Some sampleTenant\<rparr>)) =
     [(ApiSetTenantId ''t-1'', True), (SetInitialized True, True)] \<and>
   callsOf GetCurrentTenant
     (fst (initSession allReturn None None (authState\<lparr>tenant := Some sampleTenant\<rparr>))) = 0 \<and>
   isInitialized
     (applyTrace sampleExpiresAt
        (fst (initSession allReturn None None (authState\<lparr>tenant := Some sampleTenant\<rparr>)))
        (authState\<lparr>tenant := Some sampleTenant\<rparr>))"
  using
    initSession_persisted_tenant_no_fetch
      [of "authState\<lparr>tenant := Some sampleTenant\<rparr>" sampleDevice sampleTenant allReturn
          None None sampleExpiresAt "authState\<lparr>tenant := Some sampleTenant\<rparr>"]
  by (simp add: allReturn_def authState_def sampleDevice_def callsOf_def setInitialized_def)

text \<open>
  C9. A \<open>tenantSlug\<close> prop that is the empty string is falsy for \<^verbatim>\<open>||\<close>: the chosen slug,
  and with it the whole pass, is the one of an absent prop, so the stored slug or the
  fetched one is used although a prop was supplied.
\<close>

theorem empty_tenantSlug_prop_is_absent:
  "slugToUse (Some []) s t = slugToUse None s t \<and>
   slugToUse (Some []) s t = orElse s (slug t) \<and>
   initSession env (Some []) s st = initSession env None s st"
proof -
  have slug_eq: "slugToUse (Some []) s = slugToUse None s"
    by (rule ext) (simp add: slugToUse_def)
  have fetch_eq: "fetchTenant env (Some []) s = fetchTenant env None s"
    by (simp only: fetchTenant_def slug_eq)
  have "initSession env (Some []) s st = initSession env None s st"
    unfolding initSession_def fetch_eq ..
  then show ?thesis
    by (simp add: slugToUse_def)
qed

theorem empty_tenantSlug_prop_is_absent_witness:
  "slugToUse (Some []) (Some ''stored'') sampleTenant = ''stored'' \<and>
   slugToUse (Some []) None sampleTenant = ''acme'' \<and>
   fst (initSession allReturn (Some []) (Some ''stored'') authState) =
     [(ApiSetTenantId ''t-1'', True), (GetCurrentTenant, True),
      (SetTenant ''stored'' sampleTenant, True), (SetInitialized True, True)]"
  using
    empty_tenantSlug_prop_is_absent [of "Some ''stored''" sampleTenant allReturn authState]
    empty_tenantSlug_prop_is_absent [of None sampleTenant allReturn authState]
  by (simp add: slugToUse_def sampleTenant_def initSession_def fetchTenant_def comp_simps
        allReturn_def authState_def sampleDevice_def)

section \<open>Claims about the proactive refresh\<close>

text \<open>
  C5. A tick makes no call at all, and so leaves the store as it is, unless
  \<open>isDeviceAuthenticated\<close> is true, the refresh token is a non-empty string and the store
  says the access token expires within \<open>REFRESH_THRESHOLD_MS\<close>, which is five minutes in
  milliseconds. In particular it makes no call when \<open>isDeviceAuthenticated\<close> is false or
  the refresh token is absent, whatever the store says about expiry. When all three hold
  the tick does call the refresh endpoint, with the current refresh token.
\<close>

theorem proactiveRefresh_noop_unless_due:
  "(\<not> (isDeviceAuthenticated st \<and> truthy (refreshToken st) \<and> soon st REFRESH_THRESHOLD_MS) \<longrightarrow>
      proactiveRefresh env soon st = ([], Returns ()) \<and>
      applyTrace ea (fst (proactiveRefresh env soon st)) store = store) \<and>
   (\<not> isDeviceAuthenticated st \<or> refreshToken st = None \<longrightarrow>
      proactiveRefresh env soon st = ([], Returns ())) \<and>
   REFRESH_THRESHOLD_MS = 5 * 60 * 1000 \<and>
   (isDeviceAuthenticated st \<and> truthy (refreshToken st) \<and> soon st REFRESH_THRESHOLD_MS \<longrightarrow>
      (\<exists>token rest. refreshToken st = Some token \<and>
         fst (proactiveRefresh env soon st) =
           (RefreshDeviceToken token, returned (onRefreshDeviceToken env)) # rest))"
proof -
  have noop: "proactiveRefresh env soon st = ([], Returns ())"
    if "\<not> (isDeviceAuthenticated st \<and> truthy (refreshToken st) \<and> soon st REFRESH_THRESHOLD_MS)"
    using that by (auto simp: proactiveRefresh_def ret_def)
  have absent: "\<not> truthy (refreshToken st)" if "refreshToken st = None"
    using that by simp
  have due: "\<exists>token rest. refreshToken st = Some token \<and>
               fst (proactiveRefresh env soon st) =
                 (RefreshDeviceToken token, returned (onRefreshDeviceToken env)) # rest"
    if "isDeviceAuthenticated st" "truthy (refreshToken st)" "soon st REFRESH_THRESHOLD_MS"
    using that
    by (cases "refreshToken st"; cases "onRefreshDeviceToken env"; cases "onUpdateTokens env")
       (auto simp: proactiveRefresh_def comp_simps)
  have threshold: "REFRESH_THRESHOLD_MS = 5 * 60 * 1000"
    by (simp add: REFRESH_THRESHOLD_MS_def)
  from noop absent due threshold show ?thesis
    by (metis applyTrace.simps(1) fst_conv)
qed

theorem proactiveRefresh_noop_unless_due_witness:
  "expiringAt 0 authState REFRESH_THRESHOLD_MS \<and>
   proactiveRefresh allReturn (expiringAt 0) (authState\<lparr>isDeviceAuthenticated := False\<rparr>) =
     ([], Returns ()) \<and>
   proactiveRefresh allReturn (expiringAt 0) (authState\<lparr>refreshToken := None\<rparr>) =
     ([], Returns ()) \<and>
   \<not> expiringAt 0 (authState\<lparr>accessTokenExpiresAt := Some 300001\<rparr>) REFRESH_THRESHOLD_MS \<and>
   proactiveRefresh allReturn (expiringAt 0) (authState\<lparr>accessTokenExpiresAt := Some 300001\<rparr>) =
     ([], Returns ()) \<and>
   fst (proactiveRefresh allReturn (expiringAt 0) authState) \<noteq> []"
  using
    proactiveRefresh_noop_unless_due
      [of "authState\<lparr>isDeviceAuthenticated := False\<rparr>" "expiringAt 0" allReturn
          sampleExpiresAt authState]
    proactiveRefresh_noop_unless_due
      [of "authState\<lparr>refreshToken := None\<rparr>" "expiringAt 0" allReturn sampleExpiresAt authState]
    proactiveRefresh_noop_unless_due
      [of "authState\<lparr>accessTokenExpiresAt := Some 300001\<rparr>" "expiringAt 0" allReturn
          sampleExpiresAt authState]
    proactiveRefresh_noop_unless_due
      [of authState "expiringAt 0" allReturn sampleExpiresAt authState]
  by (auto simp: authState_def expiringAt_def REFRESH_THRESHOLD_MS_def)

text \<open>
  C6. The tick is due (authenticated, refresh token \<open>token\<close> non-empty, expiry within the
  threshold). When the refresh request resolves with \<open>response\<close>, the tick makes one
  \<open>updateTokens\<close> call carrying the three values of the response, and that call takes the
  store in one step to the state with all three fields replaced: no state of the history
  has only some of them. When the request rejects, the tick makes no call on the store,
  the store stays as it is, and the tick itself returns normally.
\<close>

theorem proactiveRefresh_updates_all_or_nothing:
  assumes "isDeviceAuthenticated st" "refreshToken st = Some token" "token \<noteq> []"
    and "soon st REFRESH_THRESHOLD_MS"
  shows "(onRefreshDeviceToken env = Returns response \<and> onUpdateTokens env = Returns () \<longrightarrow>
            proactiveRefresh env soon st =
              ([(RefreshDeviceToken token, True),
                (UpdateTokens (newAccessToken response) (newRefreshToken response)
                   (expiresIn response), True)], Returns ()) \<and>
            storeHistory ea (fst (proactiveRefresh env soon st)) store =
              [store, store,
               store\<lparr>accessToken := Some (newAccessToken response),
                     refreshToken := Some (newRefreshToken response),
                     accessTokenExpiresAt := Some (ea (expiresIn response))\<rparr>] \<and>
            applyTrace ea (fst (proactiveRefresh env soon st)) store =
              store\<lparr>accessToken := Some (newAccessToken response),
                    refreshToken := Some (newRefreshToken response),
                    accessTokenExpiresAt := Some (ea (expiresIn response))\<rparr>) \<and>
         (onRefreshDeviceToken env = Throws err \<longrightarrow>
            proactiveRefresh env soon st = ([(RefreshDeviceToken token, False)], Returns ()) \<and>
            storeHistory ea (fst (proactiveRefresh env soon st)) store = [store, store] \<and>
            applyTrace ea (fst (proactiveRefresh env soon st)) store = store)"
  using assms
  by (auto simp: proactiveRefresh_def comp_simps updateTokens_def)

theorem proactiveRefresh_updates_all_or_nothing_witness:
  "isDeviceAuthenticated authState \<and> refreshToken authState = Some ''refresh-1'' \<and>
   expiringAt 0 authState REFRESH_THRESHOLD_MS \<and>
   applyTrace sampleExpiresAt (fst (proactiveRefresh allReturn (expiringAt 0) authState))
     authState =
     authState\<lparr>accessToken := Some ''access-2'', refreshToken := Some ''refresh-2'',
               accessTokenExpiresAt := Some 3600500\<rparr> \<and>
   proactiveRefresh (allReturn\<lparr>onRefreshDeviceToken := Throws (ErrorObject None)\<rparr>)
     (expiringAt 0) authState = ([(RefreshDeviceToken ''refresh-1'', False)], Returns ()) \<and>
   applyTrace sampleExpiresAt
     (fst (proactiveRefresh (allReturn\<lparr>onRefreshDeviceToken := Throws (ErrorObject None)\<rparr>)
        (expiringAt 0) authState)) authState = authState"
  using
    proactiveRefresh_updates_all_or_nothing
      [of authState "''refresh-1''" "expiringAt 0" allReturn sampleResponse sampleExpiresAt
          authState]
    proactiveRefresh_updates_all_or_nothing
      [of authState "''refresh-1''" "expiringAt 0"
          "allReturn\<lparr>onRefreshDeviceToken := Throws (ErrorObject None)\<rparr>" _ sampleExpiresAt
          authState "ErrorObject None"]
  by (simp add: authState_def allReturn_def expiringAt_def REFRESH_THRESHOLD_MS_def
        sampleResponse_def sampleExpiresAt_def updateTokens_def)

section \<open>The mounted component: latch and interval\<close>

lemma run_append: "run (es @ es') m = run es' (run es m)"
  by (induction es arbitrary: m) auto

lemma initEffect_fields [simp]:
  "mounted (initEffect m) = mounted m"
  "isHydrated (initEffect m) = isHydrated m"
  "intervals (initEffect m) = intervals m"
  "pendingCleanup (initEffect m) = pendingCleanup m"
  "refreshTicks (initEffect m) = refreshTicks m"
  by (simp_all add: initEffect_def)

lemma runCleanup_fields [simp]:
  "mounted (runCleanup m) = mounted m"
  "isHydrated (runCleanup m) = isHydrated m"
  "hasInitialized (runCleanup m) = hasInitialized m"
  "initPasses (runCleanup m) = initPasses m"
  "refreshTicks (runCleanup m) = refreshTicks m"
  "pendingCleanup (runCleanup m) = None"
  by (simp_all add: runCleanup_def split: option.splits)

lemma refreshEffect_fields [simp]:
  "mounted (refreshEffect m) = mounted m"
  "isHydrated (refreshEffect m) = isHydrated m"
  "hasInitialized (refreshEffect m) = hasInitialized m"
  "initPasses (refreshEffect m) = initPasses m"
  by (simp_all add: refreshEffect_def)

lemma initEffect_latch:
  "hasInitialized (initEffect m) = (hasInitialized m \<or> isHydrated m)"
  "initPasses (initEffect m) =
     (if isHydrated m \<and> \<not> hasInitialized m then Suc (initPasses m) else initPasses m)"
  by (auto simp: initEffect_def)

text \<open>
  From any state in which the latch is set exactly when the component is hydrated, the
  events add one pass when the hydration signal reaches the component while it is
  mounted, and none otherwise.
\<close>

lemma initPasses_run:
  assumes "hasInitialized m = isHydrated m"
  shows "initPasses (run evs m) =
           initPasses m +
           (if mounted m \<and> \<not> isHydrated m \<and>
               HydrationSignal \<in> set (takeWhile (\<lambda>e. e \<noteq> Unmount) evs)
            then 1 else 0) \<and>
         hasInitialized (run evs m) = isHydrated (run evs m)"
  using assms
proof (induction evs arbitrary: m)
  case Nil
  then show ?case by simp
next
  case (Cons e evs)
  have latch: "hasInitialized (step e m) = isHydrated (step e m)"
    using Cons.prems by (cases e) (auto simp: initEffect_latch Let_def)
  note IH = Cons.IH [OF latch]
  show ?case
  proof (cases e)
    case HydrationSignal
    then show ?thesis using IH Cons.prems by (auto simp: initEffect_latch)
  next
    case (StoreUpdate i r)
    then show ?thesis using IH Cons.prems by (auto simp: initEffect_latch Let_def)
  next
    case IntervalElapsed
    then show ?thesis using IH Cons.prems by auto
  next
    case Unmount
    then show ?thesis using IH Cons.prems by auto
  qed
qed

lemma cleanupOwnsIntervals_step:
  assumes "cleanupOwnsIntervals m"
  shows "cleanupOwnsIntervals (step e m)"
  using assms
  by (cases e)
     (auto simp: cleanupOwnsIntervals_def initEffect_def refreshEffect_def runCleanup_def
        Let_def split: option.splits)

lemma cleanupOwnsIntervals_run:
  assumes "cleanupOwnsIntervals m"
  shows "cleanupOwnsIntervals (run evs m)"
  using assms by (induction evs arbitrary: m) (auto simp: cleanupOwnsIntervals_step)

lemma unmounted_step:
  assumes "\<not> mounted m" "intervals m = []"
  shows "\<not> mounted (step e m) \<and> intervals (step e m) = [] \<and>
         refreshTicks (step e m) = refreshTicks m"
  using assms by (cases e) auto

lemma unmounted_is_silent:
  assumes "\<not> mounted m" "intervals m = []"
  shows "refreshTicks (run evs m) = refreshTicks m \<and> intervals (run evs m) = []"
  using assms
proof (induction evs arbitrary: m)
  case Nil
  then show ?case by simp
next
  case (Cons e evs)
  from unmounted_step [OF Cons.prems, of e] Cons.IH [of "step e m"]
  show ?case by simp
qed

lemma unmount_clears:
  assumes "cleanupOwnsIntervals m"
  shows "\<not> mounted (step Unmount m) \<and> intervals (step Unmount m) = [] \<and>
         refreshTicks (step Unmount m) = refreshTicks m"
  using assms
  by (auto simp: cleanupOwnsIntervals_def runCleanup_def split: option.splits)

text \<open>
  C3. For every sequence of events of one mount, \<open>initSession\<close> is invoked at most once:
  exactly once when the hydration signal reaches the component while it is mounted, and
  never otherwise, however many store updates come before or after the signal. The count
  is the latch: \<open>hasInitialized\<close> is set exactly when a pass has run. One pass calls
  \<open>setInitialized(true)\<close> once (with the call returning) and takes a store that is not yet
  initialized through exactly one change of \<open>isInitialized\<close> from false to true.
\<close>

theorem init_pass_once_per_mount:
  "initPasses (run evs mounted0) \<le> 1 \<and>
   initPasses (run evs mounted0) =
     (if HydrationSignal \<in> set (takeWhile (\<lambda>e. e \<noteq> Unmount) evs) then 1 else 0) \<and>
   hasInitialized (run evs mounted0) = (initPasses (run evs mounted0) = 1) \<and>
   (onSetInitialized env = Returns () \<longrightarrow>
      callsOf (SetInitialized True) (fst (initSession env p s st)) = 1 \<and>
      (\<not> isInitialized store \<longrightarrow>
         becomesInitialized (storeHistory ea (fst (initSession env p s st)) store) = 1))"
proof -
  have start: "hasInitialized mounted0 = isHydrated mounted0"
    by (simp add: mounted0_def)
  note passes = initPasses_run [OF start, of evs]
  have count: "initPasses (run evs mounted0) =
                 (if HydrationSignal \<in> set (takeWhile (\<lambda>e. e \<noteq> Unmount) evs) then 1 else 0)"
    using passes by (simp add: mounted0_def)
  have latch: "hasInitialized (run evs mounted0) = (initPasses (run evs mounted0) = 1)"
  proof -
    have inv: "hasInitialized m = (initPasses m = 1) \<and> initPasses m \<le> 1 \<Longrightarrow>
               hasInitialized (step e m) = (initPasses (step e m) = 1) \<and>
               initPasses (step e m) \<le> 1" for e m
      by (cases e) (auto simp: initEffect_def Let_def)
    have "hasInitialized m = (initPasses m = 1) \<and> initPasses m \<le> 1 \<Longrightarrow>
          hasInitialized (run evs m) = (initPasses (run evs m) = 1)" for m
    proof (induction evs arbitrary: m)
      case Nil
      then show ?case by simp
    next
      case (Cons e evs)
      from Cons.IH [OF inv [OF Cons.prems]] show ?case by simp
    qed
    then show ?thesis by (simp add: mounted0_def)
  qed
  from count latch callsOf_SetInitialized_pass becomesInitialized_pass show ?thesis
    by auto
qed

theorem init_pass_once_per_mount_witness:
  "initPasses
     (run [StoreUpdate True False, StoreUpdate True True, HydrationSignal,
           StoreUpdate True False, IntervalElapsed, StoreUpdate True True] mounted0) = 1 \<and>
   initPasses (run [StoreUpdate True False, Unmount, HydrationSignal] mounted0) = 0 \<and>
   onSetInitialized allReturn = Returns () \<and> \<not> isInitialized authState \<and>
   callsOf (SetInitialized True) (fst (initSession allReturn None None authState)) = 1 \<and>
   becomesInitialized
     (storeHistory sampleExpiresAt (fst (initSession allReturn None None authState)) authState) = 1"
  using
    init_pass_once_per_mount
      [of "[StoreUpdate True False, StoreUpdate True True, HydrationSignal,
            StoreUpdate True False, IntervalElapsed, StoreUpdate True True]"
          allReturn None None authState authState sampleExpiresAt]
    init_pass_once_per_mount
      [of "[StoreUpdate True False, Unmount, HydrationSignal]"
          allReturn None None authState authState sampleExpiresAt]
  by (simp add: allReturn_def authState_def)

text \<open>
  C8. After the component unmounts no interval of the component is live, and whatever
  events follow (60-second boundaries, store updates, a late hydration signal) the number
  of \<open>proactiveRefresh\<close> invocations stays what it was at the unmount. A tick issues its
  refresh request in the turn in which it is invoked (the only \<^verbatim>\<open>await\<close> of
  \<open>proactiveRefresh\<close> is on the result of the request), so no refresh request is issued
  after the unmount either.
\<close>

theorem no_refresh_after_unmount:
  "intervals (run (evs @ [Unmount]) mounted0) = [] \<and>
   refreshTicks (run (evs @ Unmount # later) mounted0) = refreshTicks (run evs mounted0) \<and>
   REFRESH_CHECK_INTERVAL_MS = 60 * 1000"
proof -
  have "cleanupOwnsIntervals mounted0"
    by (simp add: cleanupOwnsIntervals_def mounted0_def)
  then have "cleanupOwnsIntervals (run evs mounted0)"
    by (rule cleanupOwnsIntervals_run)
  then have cleared:
    "\<not> mounted (step Unmount (run evs mounted0)) \<and>
     intervals (step Unmount (run evs mounted0)) = [] \<and>
     refreshTicks (step Unmount (run evs mounted0)) = refreshTicks (run evs mounted0)"
    by (rule unmount_clears)
  then have "refreshTicks (run later (step Unmount (run evs mounted0))) =
               refreshTicks (run evs mounted0)"
    using unmounted_is_silent [of "step Unmount (run evs mounted0)" later] by simp
  with cleared show ?thesis
    by (simp add: run_append REFRESH_CHECK_INTERVAL_MS_def)
qed

theorem no_refresh_after_unmount_witness:
  "refreshTicks (run [HydrationSignal, IntervalElapsed, IntervalElapsed] mounted0) = 3 \<and>
   refreshTicks
     (run ([HydrationSignal, IntervalElapsed] @ Unmount # [IntervalElapsed, IntervalElapsed])
        mounted0) = 2 \<and>
   refreshTicks
     (run ([HydrationSignal, StoreUpdate False True, IntervalElapsed] @
           Unmount # [IntervalElapsed, StoreUpdate True True, IntervalElapsed]) mounted0) = 3"
  using
    no_refresh_after_unmount
      [of "[HydrationSignal, IntervalElapsed]" "[IntervalElapsed, IntervalElapsed]"]
    no_refresh_after_unmount
      [of "[HydrationSignal, StoreUpdate False True, IntervalElapsed]"
          "[IntervalElapsed, StoreUpdate True True, IntervalElapsed]"]
  by (simp add: mounted0_def initEffect_def refreshEffect_def runCleanup_def)

section \<open>Claims about the modifier widgets\<close>

text \<open>
  C10. In \<open>ModifierChips\<close> and \<open>ModifierCards\<close> the click handler of a button passes nothing
  to \<open>onToggle\<close> when the modifier is unavailable, nor, in a group whose \<open>maxSelections\<close>
  is greater than 1, when the modifier is not selected and the number of selected
  modifiers of the group has reached \<open>maxSelections\<close>. In \<open>ModifierSegmented\<close> the handler
  of every available modifier passes the modifier to \<open>onToggle\<close>, whatever the selection
  and whatever \<open>maxSelections\<close>.
\<close>

theorem modifier_toggle_guards:
  "ModifierChips grp sel = map (chipButton grp sel) (modifiers grp) \<and>
   ModifierCards grp sel = map (cardButton grp sel) (modifiers grp) \<and>
   ModifierSegmented grp sel = map (segmentButton grp sel) (modifiers grp) \<and>
   (\<not> isAvailable m \<longrightarrow>
      onClick (chipButton grp sel m) = [] \<and> onClick (cardButton grp sel m) = []) \<and>
   (1 < maxSelections grp \<and> modifierId m \<notin> sel \<and> maxSelections grp \<le> selectedCount grp sel \<longrightarrow>
      onClick (chipButton grp sel m) = [] \<and> onClick (cardButton grp sel m) = []) \<and>
   (isAvailable m \<longrightarrow> onClick (segmentButton grp sel m) = [m]) \<and>
   (\<not> isAvailable m \<longrightarrow> onClick (segmentButton grp sel m) = [])"
  by (simp add: ModifierChips_def ModifierCards_def ModifierSegmented_def chipButton_def
        cardButton_def segmentButton_def Let_def)

theorem modifier_toggle_guards_witness:
  "selectedCount toppings {''m1'', ''m2''} = 2 \<and> maxSelections toppings = 2 \<and>
   isAvailable olives \<and> modifierId olives \<notin> {''m1'', ''m2''} \<and> \<not> isAvailable truffle \<and>
   onClick (chipButton toppings {''m1'', ''m2''} olives) = [] \<and>
   onClick (cardButton toppings {''m1'', ''m2''} olives) = [] \<and>
   onClick (segmentButton toppings {''m1'', ''m2''} olives) = [olives] \<and>
   onClick (chipButton toppings {''m1''} truffle) = [] \<and>
   onClick (cardButton toppings {''m1''} truffle) = [] \<and>
   onClick (chipButton toppings {''m1''} olives) = [olives] \<and>
   map onClick (ModifierSegmented toppings {''m1'', ''m2''}) = [[cheese], [bacon], [olives], []]"
  using
    modifier_toggle_guards [of toppings "{''m1'', ''m2''}" olives]
    modifier_toggle_guards [of toppings "{''m1''}" truffle]
  by (simp add: toppings_def cheese_def bacon_def olives_def truffle_def selectedCount_def
        chipButton_def cardButton_def segmentButton_def ModifierSegmented_def Let_def)

end
